theory Spec2Isabelle
  imports Main "HOL-Library.Word"
begin

section \<open>The root certificate accessor of the Firestore gRPC transport\<close>

text \<open>
  The verified unit is
  \<^verbatim>\<open>Firestore/core/src/firebase/firestore/remote/grpc_root_certificate_finder_generated.cc\<close>:
  \<^verbatim>\<open>
  std::string LoadGrpcRootCertificate() {
    return {reinterpret_cast<const char*>(grpc_root_certificates), grpc_root_certificates_size};
  }
  \<close>
  The function builds a \<^verbatim>\<open>std::string\<close> with the constructor that takes a character
  pointer and a count. The array \<^verbatim>\<open>grpc_root_certificates\<close> and the constant
  \<^verbatim>\<open>grpc_root_certificates_size\<close> are declared in the generated header
  \<^verbatim>\<open>grpc_root_certificates_generated.h\<close>; here they are components of the program
  state, so every result holds for whatever the header declares.
\<close>

subsection \<open>Memory\<close>

text \<open>
  Memory is a collection of objects, each a sequence of bytes. An object is either the
  static array \<^verbatim>\<open>grpc_root_certificates\<close> or the buffer of a string, named by the
  number of its creation. A pointer is an object together with an offset into it, so
  that a pointer into one object can never reach another one by arithmetic. Whether a
  byte is read as \<^verbatim>\<open>unsigned char\<close> or as \<^verbatim>\<open>char\<close> does not change what is stored.
\<close>

type_synonym byte = "8 word"

datatype block = Static_certs | Heap nat

type_synonym ptr = "block \<times> nat"

datatype io_event = File_io | Network_io | Other_io

datatype error =
  Length_error | Bad_alloc | Out_of_bounds_read | Out_of_bounds_write | Bad_handle

record state =
  grpc_root_certificates :: "byte list"
  grpc_root_certificates_size :: nat
  heap :: "byte list list"
  io_trace :: "io_event list"
  max_size :: nat
  short_capacity :: nat
  store_limit :: nat

definition object_bytes :: "state \<Rightarrow> block \<Rightarrow> byte list option" where
  "object_bytes s b =
     (case b of
        Static_certs \<Rightarrow> Some (grpc_root_certificates s)
      | Heap n \<Rightarrow> (if n < length (heap s) then Some (heap s ! n) else None))"

text \<open>Reading outside an object is undefined behaviour in C++; the model returns \<open>None\<close>.\<close>

definition load_byte :: "state \<Rightarrow> ptr \<Rightarrow> byte option" where
  "load_byte s p =
     (case object_bytes s (fst p) of
        None \<Rightarrow> None
      | Some bs \<Rightarrow> (if snd p < length bs then Some (bs ! snd p) else None))"

text \<open>
  A write goes to whatever object the pointer names. The model does not rely on the
  array being declared \<^verbatim>\<open>const\<close>: a write through a pointer into the static array
  would change it.
\<close>

definition store_byte :: "state \<Rightarrow> ptr \<Rightarrow> byte \<Rightarrow> state option" where
  "store_byte s p v =
     (case fst p of
        Static_certs \<Rightarrow>
          (if snd p < length (grpc_root_certificates s)
           then Some (s\<lparr>grpc_root_certificates := (grpc_root_certificates s)[snd p := v]\<rparr>)
           else None)
      | Heap n \<Rightarrow>
          (if n < length (heap s) \<and> snd p < length (heap s ! n)
           then Some (s\<lparr>heap := (heap s)[n := (heap s ! n)[snd p := v]]\<rparr>)
           else None))"

text \<open>
  The limits of the library and of the machine are constants of the state:
  \<open>max_size\<close> is \<^verbatim>\<open>std::string::max_size()\<close>, \<open>short_capacity\<close> is the length of the
  longest string that the library keeps inside the string object, and \<open>store_limit\<close>
  is the number of bytes that the free store can hold. A buffer of more than
  \<open>short_capacity + 1\<close> bytes lies in the free store.
\<close>

definition store_used :: "state \<Rightarrow> nat" where
  "store_used s =
     sum_list (filter (\<lambda>k. Suc (short_capacity s) < k) (map length (heap s)))"

text \<open>A new object of \<open>k\<close> zero bytes, behind all existing ones.\<close>

definition new_object :: "state \<Rightarrow> nat \<Rightarrow> state \<times> block" where
  "new_object s k = (s\<lparr>heap := heap s @ [replicate k 0]\<rparr>, Heap (length (heap s)))"

text \<open>
  \<^verbatim>\<open>operator new\<close>: when the free store cannot supply \<open>k\<close> more bytes, it throws
  \<^verbatim>\<open>std::bad_alloc\<close>.
\<close>

definition allocate :: "state \<Rightarrow> nat \<Rightarrow> error + state \<times> block" where
  "allocate s k =
     (if store_used s + k \<le> store_limit s then Inr (new_object s k) else Inl Bad_alloc)"

text \<open>The whole content of an object is replaced.\<close>

definition write_object :: "state \<Rightarrow> block \<Rightarrow> byte list \<Rightarrow> state" where
  "write_object s b bs =
     (case b of
        Static_certs \<Rightarrow> s\<lparr>grpc_root_certificates := bs\<rparr>
      | Heap m \<Rightarrow> s\<lparr>heap := (heap s)[m := bs]\<rparr>)"

subsection \<open>Values of the character types\<close>

text \<open>
  The array holds \<^verbatim>\<open>unsigned char\<close>, the string holds \<^verbatim>\<open>char\<close>, which is signed on
  the platforms this SDK is built for.
\<close>

definition unsigned_char_value :: "byte \<Rightarrow> nat" where
  "unsigned_char_value b = unat b"

definition char_value :: "byte \<Rightarrow> int" where
  "char_value b = sint b"

subsection \<open>The string type\<close>

text \<open>
  A \<^verbatim>\<open>std::string\<close> owns a buffer and records its length: \<^verbatim>\<open>data()\<close> and
  \<^verbatim>\<open>size()\<close>. The buffer holds one more byte than the length, the terminating zero.
  Whether the library keeps the buffer inside the string object (short strings) or on
  the free store, it is storage of this string alone: an object of its own in the model.
\<close>

record cxx_string =
  data_ptr :: ptr
  str_size :: nat

text \<open>
  The copy loop of the constructor: \<open>n\<close> characters are read, starting at \<open>p\<close>.
  No byte value ends the loop; only the count does.
\<close>

fun copy_chars :: "state \<Rightarrow> ptr \<Rightarrow> nat \<Rightarrow> byte list option" where
  "copy_chars s p 0 = Some []"
| "copy_chars s p (Suc n) =
     (case load_byte s p of
        None \<Rightarrow> None
      | Some c \<Rightarrow>
          (case copy_chars s (fst p, Suc (snd p)) n of
             None \<Rightarrow> None
           | Some cs \<Rightarrow> Some (c # cs)))"

text \<open>
  The storage of a string of \<open>n\<close> characters, \<open>n + 1\<close> bytes: inside the string
  object when the string is short, from the free store otherwise.
\<close>

definition string_storage :: "state \<Rightarrow> nat \<Rightarrow> error + state \<times> block" where
  "string_storage s n =
     (if n \<le> short_capacity s then Inr (new_object s (Suc n)) else allocate s (Suc n))"

text \<open>
  \<^verbatim>\<open>basic_string(const char* s, size_type n)\<close>: the new string holds a copy of the
  \<open>n\<close> characters at \<open>s\<close>, in storage of its own. The constructor throws
  \<^verbatim>\<open>std::length_error\<close> when \<open>n\<close> exceeds \<^verbatim>\<open>max_size()\<close>, and the allocation
  may throw \<^verbatim>\<open>std::bad_alloc\<close>; then the characters are copied and the terminating
  zero is set.
\<close>

definition basic_string_ptr_count :: "state \<Rightarrow> ptr \<Rightarrow> nat \<Rightarrow> error + state \<times> cxx_string" where
  "basic_string_ptr_count s p n =
     (if max_size s < n then Inl Length_error
      else (case string_storage s n of
              Inl e \<Rightarrow> Inl e
            | Inr (s', b) \<Rightarrow>
                (case copy_chars s' p n of
                   None \<Rightarrow> Inl Out_of_bounds_read
                 | Some cs \<Rightarrow>
                     Inr (write_object s' b (cs @ [0]),
                          \<lparr>data_ptr = (b, 0), str_size = n\<rparr>))))"

text \<open>
  The constructor can obtain storage for \<open>n\<close> characters: neither of its two
  exceptions is thrown.
\<close>

definition storage_available :: "state \<Rightarrow> nat \<Rightarrow> bool" where
  "storage_available s n \<longleftrightarrow>
     n \<le> max_size s \<and> (n \<le> short_capacity s \<or> store_used s + Suc n \<le> store_limit s)"

text \<open>The characters of a string: the \<^verbatim>\<open>size()\<close> bytes at \<^verbatim>\<open>data()\<close>.\<close>

definition string_bytes :: "state \<Rightarrow> cxx_string \<Rightarrow> byte list option" where
  "string_bytes s r = copy_chars s (data_ptr r) (str_size r)"

text \<open>\<^verbatim>\<open>str[i] = c\<close>, what a caller does to modify a string it holds.\<close>

definition string_set :: "state \<Rightarrow> cxx_string \<Rightarrow> nat \<Rightarrow> byte \<Rightarrow> error + state" where
  "string_set s r i c =
     (if i < str_size r
      then (case store_byte s (fst (data_ptr r), snd (data_ptr r) + i) c of
              None \<Rightarrow> Inl Out_of_bounds_write
            | Some s' \<Rightarrow> Inr s')
      else Inl Out_of_bounds_write)"

subsection \<open>The accessor\<close>

text \<open>An array used as a pointer points to its first element.\<close>

definition array_to_pointer :: "block \<Rightarrow> ptr" where
  "array_to_pointer b = (b, 0)"

text \<open>\<^verbatim>\<open>reinterpret_cast<const char*>\<close> changes the static type of the pointer only.\<close>

definition reinterpret_cast_const_char_ptr :: "ptr \<Rightarrow> ptr" where
  "reinterpret_cast_const_char_ptr p = p"

definition LoadGrpcRootCertificate :: "state \<Rightarrow> error + state \<times> cxx_string" where
  "LoadGrpcRootCertificate s =
     basic_string_ptr_count s
       (reinterpret_cast_const_char_ptr (array_to_pointer Static_certs))
       (grpc_root_certificates_size s)"

subsection \<open>The generated data\<close>

text \<open>
  Modelled from the spec: the generated header \<^verbatim>\<open>grpc_root_certificates_generated.h\<close>,
  which defines the array and its length constant, is not part of the sources. The
  specification requires of it that the length constant equals the true byte length of
  the data.
\<close>

definition bundle_length_consistent :: "state \<Rightarrow> bool" where
  "bundle_length_consistent s \<longleftrightarrow>
     grpc_root_certificates_size s = length (grpc_root_certificates s)"

subsection \<open>Callers\<close>

text \<open>
  What the rest of the process does with the accessor: it calls it, and it modifies
  strings that earlier calls returned. A configuration is the memory together with the
  strings handed out so far.
\<close>

datatype action = Call_Load | Modify nat nat byte

type_synonym config = "state \<times> cxx_string list"

fun step :: "config \<Rightarrow> action \<Rightarrow> error + config" where
  "step (s, rs) Call_Load =
     (case LoadGrpcRootCertificate s of
        Inl e \<Rightarrow> Inl e
      | Inr (s', r) \<Rightarrow> Inr (s', rs @ [r]))"
| "step (s, rs) (Modify k i c) =
     (if k < length rs
      then (case string_set s (rs ! k) i c of
              Inl e \<Rightarrow> Inl e
            | Inr s' \<Rightarrow> Inr (s', rs))
      else Inl Bad_handle)"

fun run :: "config \<Rightarrow> action list \<Rightarrow> error + config" where
  "run c [] = Inr c"
| "run c (a # as) =
     (case step c a of
        Inl e \<Rightarrow> Inl e
      | Inr c' \<Rightarrow> run c' as)"

subsection \<open>Invariants of configurations\<close>

text \<open>
  Every string handed out owns a buffer of its own, one byte longer than the string,
  and no two strings share a buffer.
\<close>

definition handles_owned :: "config \<Rightarrow> bool" where
  "handles_owned c \<longleftrightarrow>
     distinct (map data_ptr (snd c))
   \<and> (\<forall>r \<in> set (snd c). \<exists>m. data_ptr r = (Heap m, 0) \<and> m < length (heap (fst c))
          \<and> length (heap (fst c) ! m) = Suc (str_size r))"

text \<open>Two states agree on everything but the content of the buffers.\<close>

definition same_statics :: "state \<Rightarrow> state \<Rightarrow> bool" where
  "same_statics s t \<longleftrightarrow>
     grpc_root_certificates t = grpc_root_certificates s
   \<and> grpc_root_certificates_size t = grpc_root_certificates_size s
   \<and> io_trace t = io_trace s
   \<and> max_size t = max_size s
   \<and> short_capacity t = short_capacity s
   \<and> store_limit t = store_limit s"

subsection \<open>Example data\<close>

text \<open>
  A bundle of five bytes with a zero byte in the middle and two bytes above \<open>0x7f\<close>,
  and the empty bundle. The limits are those of a 64-bit library that keeps strings of
  up to 22 characters inside the string object, with a free store of one mebibyte.
\<close>

definition example_state :: state where
  "example_state =
     \<lparr>grpc_root_certificates = [45, 0, 128, 255, 65],
      grpc_root_certificates_size = 5,
      heap = [],
      io_trace = [],
      max_size = 18446744073709551599,
      short_capacity = 22,
      store_limit = 1048576\<rparr>"

definition example_string :: cxx_string where
  "example_string = \<lparr>data_ptr = (Heap 0, 0), str_size = 5\<rparr>"

text \<open>The example state with a given heap, and the string whose buffer is object \<open>m\<close>.\<close>

definition example_with_heap :: "byte list list \<Rightarrow> state" where
  "example_with_heap h = example_state\<lparr>heap := h\<rparr>"

definition example_string_at :: "nat \<Rightarrow> cxx_string" where
  "example_string_at m = \<lparr>data_ptr = (Heap m, 0), str_size = 5\<rparr>"

definition empty_state :: state where
  "empty_state =
     \<lparr>grpc_root_certificates = [],
      grpc_root_certificates_size = 0,
      heap = [],
      io_trace = [],
      max_size = 18446744073709551599,
      short_capacity = 22,
      store_limit = 1048576\<rparr>"

text \<open>
  A bundle of thirty bytes, too long for the string object, on a machine whose free
  store has room for it, and on one whose free store has sixteen bytes left.
\<close>

definition long_state :: state where
  "long_state =
     \<lparr>grpc_root_certificates = replicate 30 45,
      grpc_root_certificates_size = 30,
      heap = [],
      io_trace = [],
      max_size = 18446744073709551599,
      short_capacity = 22,
      store_limit = 1048576\<rparr>"

definition exhausted_state :: state where
  "exhausted_state = long_state\<lparr>store_limit := 16\<rparr>"

section \<open>Properties\<close>

subsection \<open>The copy loop\<close>

lemma copy_chars_eq:
  "copy_chars s (b, k) n =
     (if n = 0 then Some []
      else (case object_bytes s b of
              None \<Rightarrow> None
            | Some bs \<Rightarrow> (if k + n \<le> length bs then Some (take n (drop k bs)) else None)))"
proof (induction n arbitrary: k)
  case 0
  show ?case by simp
next
  case (Suc n)
  show ?case
  proof (cases "object_bytes s b")
    case None
    then show ?thesis by (simp add: load_byte_def)
  next
    case (Some bs)
    show ?thesis
    proof (cases "k < length bs")
      case False
      then have "\<not> k + Suc n \<le> length bs" by arith
      with False Some show ?thesis by (simp add: load_byte_def)
    next
      case True
      then have unfold: "take (Suc n) (drop k bs) = bs ! k # take n (drop (Suc k) bs)"
        by (simp add: Cons_nth_drop_Suc [symmetric])
      show ?thesis
      proof (cases "n = 0")
        case True
        with \<open>k < length bs\<close> Some unfold show ?thesis
          by (simp add: load_byte_def Suc_le_eq)
      next
        case False
        with \<open>k < length bs\<close> Some unfold show ?thesis
          by (simp add: load_byte_def Suc.IH)
      qed
    qed
  qed
qed

subsection \<open>What the accessor computes\<close>

lemma string_storage_eq:
  "string_storage s n =
     (if n \<le> short_capacity s \<or> store_used s + Suc n \<le> store_limit s
      then Inr (s\<lparr>heap := heap s @ [replicate (Suc n) 0]\<rparr>, Heap (length (heap s)))
      else Inl Bad_alloc)"
  by (simp add: string_storage_def allocate_def new_object_def)

lemma LoadGrpcRootCertificate_eq:
  "LoadGrpcRootCertificate s =
     (if max_size s < grpc_root_certificates_size s then Inl Length_error
      else if \<not> storage_available s (grpc_root_certificates_size s) then Inl Bad_alloc
      else if grpc_root_certificates_size s \<le> length (grpc_root_certificates s)
      then Inr (s\<lparr>heap := heap s @
                    [take (grpc_root_certificates_size s) (grpc_root_certificates s) @ [0]]\<rparr>,
                \<lparr>data_ptr = (Heap (length (heap s)), 0),
                 str_size = grpc_root_certificates_size s\<rparr>)
      else Inl Out_of_bounds_read)"
  by (auto simp: LoadGrpcRootCertificate_def basic_string_ptr_count_def string_storage_eq
      storage_available_def write_object_def array_to_pointer_def
      reinterpret_cast_const_char_ptr_def copy_chars_eq object_bytes_def)

lemma string_bytes_fresh:
  "length cs = n \<Longrightarrow>
   string_bytes (s\<lparr>heap := heap s @ [cs @ [z]]\<rparr>)
     \<lparr>data_ptr = (Heap (length (heap s)), 0), str_size = n\<rparr> = Some cs"
  by (auto simp: string_bytes_def copy_chars_eq object_bytes_def)

lemma Load_returns:
  assumes "bundle_length_consistent s"
    and "storage_available s (grpc_root_certificates_size s)"
  shows "LoadGrpcRootCertificate s =
     Inr (s\<lparr>heap := heap s @ [grpc_root_certificates s @ [0]]\<rparr>,
          \<lparr>data_ptr = (Heap (length (heap s)), 0),
           str_size = length (grpc_root_certificates s)\<rparr>)"
proof -
  from assms(2) have "\<not> max_size s < grpc_root_certificates_size s"
    by (simp add: storage_available_def)
  with assms show ?thesis
    by (simp add: LoadGrpcRootCertificate_eq bundle_length_consistent_def)
qed

lemma Load_result:
  assumes "LoadGrpcRootCertificate s = Inr (s', r)"
  shows "s' = s\<lparr>heap := heap s @
            [take (grpc_root_certificates_size s) (grpc_root_certificates s) @ [0]]\<rparr>"
    and "r = \<lparr>data_ptr = (Heap (length (heap s)), 0),
              str_size = grpc_root_certificates_size s\<rparr>"
    and "grpc_root_certificates_size s \<le> length (grpc_root_certificates s)"
    and "storage_available s (grpc_root_certificates_size s)"
  using assms by (auto simp: LoadGrpcRootCertificate_eq split: if_splits)

lemma Load_content:
  assumes "LoadGrpcRootCertificate s = Inr (s', r)"
  shows "string_bytes s' r
     = Some (take (grpc_root_certificates_size s) (grpc_root_certificates s))"
  using Load_result(3) [OF assms]
  unfolding Load_result(1) [OF assms] Load_result(2) [OF assms]
  by (simp add: string_bytes_fresh)

lemma Load_failure:
  assumes "bundle_length_consistent s"
    and "\<not> storage_available s (grpc_root_certificates_size s)"
  shows "LoadGrpcRootCertificate s =
     Inl (if max_size s < grpc_root_certificates_size s then Length_error else Bad_alloc)"
  using assms by (simp add: LoadGrpcRootCertificate_eq)

lemma storage_available_0: "storage_available s 0"
  by (simp add: storage_available_def)

lemma example_state_consistent: "bundle_length_consistent example_state"
  by (simp add: bundle_length_consistent_def example_state_def)

lemma example_state_storage:
  "storage_available example_state (grpc_root_certificates_size example_state)"
  by (simp add: storage_available_def example_state_def)

lemma Load_example_state:
  "LoadGrpcRootCertificate example_state =
     Inr (example_state\<lparr>heap := [[45, 0, 128, 255, 65, 0]]\<rparr>, example_string)"
  using Load_returns [OF example_state_consistent example_state_storage]
  by (simp add: example_state_def example_string_def)

lemma long_state_consistent: "bundle_length_consistent long_state"
  by (simp add: bundle_length_consistent_def long_state_def)

lemma long_state_storage:
  "storage_available long_state (grpc_root_certificates_size long_state)"
  by (simp add: storage_available_def long_state_def store_used_def)

lemma exhausted_state_consistent: "bundle_length_consistent exhausted_state"
  by (simp add: bundle_length_consistent_def exhausted_state_def long_state_def)

lemma exhausted_state_storage:
  "\<not> storage_available exhausted_state (grpc_root_certificates_size exhausted_state)"
  by (simp add: storage_available_def exhausted_state_def long_state_def store_used_def)

subsection \<open>Values of the character types\<close>

lemma sint_byte: "sint (b :: byte) = (uint b + 128) mod 256 - 128"
  unfolding sint_uint signed_take_bit_eq_take_bit_shift take_bit_eq_mod
  by simp

lemma mod_256_upper: "\<not> (x::int) < 128 \<Longrightarrow> x < 256 \<Longrightarrow> (x + 128) mod 256 = x - 128"
  by (rule int_mod_pos_eq [where q = 1]) simp_all

lemma char_value_of_byte:
  "char_value b =
     (if unsigned_char_value b < 128 then int (unsigned_char_value b)
      else int (unsigned_char_value b) - 256)"
proof -
  have bounds: "0 \<le> uint b" "uint b < 256"
    using uint_bounded [of b] by simp_all
  have u: "int (unsigned_char_value b) = uint b"
    by (simp add: unsigned_char_value_def)
  show ?thesis
  proof (cases "uint b < 128")
    case True
    then have "(uint b + 128) mod 256 = uint b + 128"
      using bounds by (simp add: mod_pos_pos_trivial)
    with True u show ?thesis
      by (simp add: char_value_def sint_byte)
  next
    case False
    then have "(uint b + 128) mod 256 = uint b - 128"
      using bounds by (simp add: mod_256_upper)
    with False u show ?thesis
      by (simp add: char_value_def sint_byte)
  qed
qed

subsection \<open>One call\<close>

text \<open>
  C1: the byte sequence that \<open>LoadGrpcRootCertificate\<close> returns has as many bytes as
  the constant \<open>grpc_root_certificates_size\<close> says. Whenever a call returns, both
  \<^verbatim>\<open>size()\<close> of the string and the number of bytes it holds equal the constant; and
  the call does return when the constant is the length of the array and the
  constructor can obtain storage for the string.
\<close>

theorem load_length_is_size:
  "(bundle_length_consistent s \<and> storage_available s (grpc_root_certificates_size s) \<longrightarrow>
      (\<exists>s' r. LoadGrpcRootCertificate s = Inr (s', r)))
   \<and> (\<forall>s' r. LoadGrpcRootCertificate s = Inr (s', r) \<longrightarrow>
          str_size r = grpc_root_certificates_size s
        \<and> (\<exists>cs. string_bytes s' r = Some cs \<and> length cs = grpc_root_certificates_size s))"
proof (intro conjI impI allI)
  assume "bundle_length_consistent s \<and> storage_available s (grpc_root_certificates_size s)"
  then show "\<exists>s' r. LoadGrpcRootCertificate s = Inr (s', r)"
    using Load_returns [of s] by blast
next
  fix s' r
  assume ret: "LoadGrpcRootCertificate s = Inr (s', r)"
  from Load_result(2) [OF ret] show "str_size r = grpc_root_certificates_size s"
    by simp
  from Load_content [OF ret] Load_result(3) [OF ret]
  show "\<exists>cs. string_bytes s' r = Some cs \<and> length cs = grpc_root_certificates_size s"
    by simp
qed

theorem load_length_is_size_witness:
  "bundle_length_consistent example_state
   \<and> storage_available example_state (grpc_root_certificates_size example_state)
   \<and> (\<exists>s' r. LoadGrpcRootCertificate example_state = Inr (s', r)
        \<and> str_size r = 5 \<and> (\<exists>cs. string_bytes s' r = Some cs \<and> length cs = 5))"
proof -
  have sz: "grpc_root_certificates_size example_state = 5"
    by (simp add: example_state_def)
  from load_length_is_size [of example_state] example_state_consistent
    example_state_storage sz
  show ?thesis
    by auto
qed

text \<open>
  C2: the bytes of the returned string are the bytes of the array
  \<open>grpc_root_certificates\<close>, in the same order and with nothing added, removed or
  changed. This holds of every string that a call returns, and a call returns one when
  the constructor can obtain storage.
\<close>

theorem load_content_is_bundle:
  "bundle_length_consistent s \<Longrightarrow>
     (storage_available s (grpc_root_certificates_size s) \<longrightarrow>
        (\<exists>s' r. LoadGrpcRootCertificate s = Inr (s', r)))
   \<and> (\<forall>s' r. LoadGrpcRootCertificate s = Inr (s', r) \<longrightarrow>
          string_bytes s' r = Some (grpc_root_certificates s))"
proof (intro conjI impI allI)
  assume "bundle_length_consistent s" "storage_available s (grpc_root_certificates_size s)"
  then show "\<exists>s' r. LoadGrpcRootCertificate s = Inr (s', r)"
    using Load_returns [of s] by blast
next
  fix s' r
  assume "bundle_length_consistent s" and ret: "LoadGrpcRootCertificate s = Inr (s', r)"
  with Load_content [OF ret] show "string_bytes s' r = Some (grpc_root_certificates s)"
    by (simp add: bundle_length_consistent_def)
qed

theorem load_content_is_bundle_witness:
  "bundle_length_consistent example_state
   \<and> storage_available example_state (grpc_root_certificates_size example_state)
   \<and> (\<exists>s' r. LoadGrpcRootCertificate example_state = Inr (s', r)
        \<and> string_bytes s' r = Some [45, 0, 128, 255, 65])"
proof -
  have "grpc_root_certificates example_state = [45, 0, 128, 255, 65]"
    by (simp add: example_state_def)
  with load_content_is_bundle [OF example_state_consistent] example_state_consistent
    example_state_storage
  show ?thesis by auto
qed

text \<open>
  C4, as the code has it: when the length constant is the length of the array, the
  accessor has no failure of its own and never reads outside the array. A call
  returns a string whose bytes can be read whenever the constructor of the string can
  obtain storage. When it cannot, the call fails with the exception of the
  constructor: \<^verbatim>\<open>std::length_error\<close> when the length exceeds \<^verbatim>\<open>max_size()\<close>,
  \<^verbatim>\<open>std::bad_alloc\<close> when the free store is exhausted. There is no other failure.
\<close>

theorem load_fails_only_without_storage:
  "bundle_length_consistent s \<Longrightarrow>
     (storage_available s (grpc_root_certificates_size s) \<longrightarrow>
        (\<forall>e. LoadGrpcRootCertificate s \<noteq> Inl e)
      \<and> (\<exists>s' r cs. LoadGrpcRootCertificate s = Inr (s', r) \<and> string_bytes s' r = Some cs))
   \<and> (\<not> storage_available s (grpc_root_certificates_size s) \<longrightarrow>
        LoadGrpcRootCertificate s =
          Inl (if max_size s < grpc_root_certificates_size s then Length_error
               else Bad_alloc))
   \<and> (\<forall>e. LoadGrpcRootCertificate s = Inl e \<longrightarrow> e = Length_error \<or> e = Bad_alloc)"
proof -
  assume c: "bundle_length_consistent s"
  show ?thesis
  proof (cases "storage_available s (grpc_root_certificates_size s)")
    case True
    from Load_returns [OF c True] obtain s' r
      where ret: "LoadGrpcRootCertificate s = Inr (s', r)"
      by blast
    from Load_content [OF ret] ret True show ?thesis
      by auto
  next
    case False
    from Load_failure [OF c False] False show ?thesis
      by auto
  qed
qed

theorem load_fails_only_without_storage_witness:
  "bundle_length_consistent long_state
   \<and> storage_available long_state (grpc_root_certificates_size long_state)
   \<and> \<not> short_capacity long_state < 22
   \<and> 22 < grpc_root_certificates_size long_state
   \<and> (\<forall>e. LoadGrpcRootCertificate long_state \<noteq> Inl e)
   \<and> (\<exists>s' r cs. LoadGrpcRootCertificate long_state = Inr (s', r)
        \<and> string_bytes s' r = Some cs)"
proof -
  have "\<not> short_capacity long_state < 22" "22 < grpc_root_certificates_size long_state"
    by (simp_all add: long_state_def)
  with load_fails_only_without_storage [OF long_state_consistent]
    long_state_consistent long_state_storage
  show ?thesis by blast
qed

text \<open>
  The claim C4 as it is written, that no failure path is reachable, does not hold: a
  bundle of thirty bytes is too long for the string object, and with sixteen bytes
  left in the free store the call ends in \<^verbatim>\<open>std::bad_alloc\<close>, although the length
  constant is the length of the array.
\<close>

theorem load_fails_when_store_exhausted:
  "bundle_length_consistent exhausted_state
   \<and> LoadGrpcRootCertificate exhausted_state = Inl Bad_alloc"
proof -
  have "\<not> max_size exhausted_state < grpc_root_certificates_size exhausted_state"
    by (simp add: exhausted_state_def long_state_def)
  with Load_failure [OF exhausted_state_consistent exhausted_state_storage]
    exhausted_state_consistent
  show ?thesis by simp
qed

text \<open>
  C6: a call has no side effect on the state of the process. The array, the length
  constant and the trace of input and output are the same after the call as before,
  and so is every object that existed before the call: the state after the call,
  without the one object allocated by the call, is the state before the call. That
  one object is the buffer of the returned string.
\<close>

theorem load_changes_nothing:
  "LoadGrpcRootCertificate s = Inr (s', r) \<Longrightarrow>
     grpc_root_certificates s' = grpc_root_certificates s
   \<and> grpc_root_certificates_size s' = grpc_root_certificates_size s
   \<and> io_trace s' = io_trace s
   \<and> (\<forall>b bs. object_bytes s b = Some bs \<longrightarrow> object_bytes s' b = Some bs)
   \<and> s'\<lparr>heap := take (length (heap s)) (heap s')\<rparr> = s
   \<and> length (heap s') = Suc (length (heap s))
   \<and> data_ptr r = (Heap (length (heap s)), 0)"
  by (auto simp: LoadGrpcRootCertificate_eq object_bytes_def nth_append
      split: if_splits block.splits)

theorem load_changes_nothing_witness:
  "LoadGrpcRootCertificate example_state =
     Inr (example_state\<lparr>heap := [[45, 0, 128, 255, 65, 0]]\<rparr>, example_string)
   \<and> grpc_root_certificates (example_state\<lparr>heap := [[45, 0, 128, 255, 65, 0]]\<rparr>)
       = grpc_root_certificates example_state
   \<and> grpc_root_certificates_size (example_state\<lparr>heap := [[45, 0, 128, 255, 65, 0]]\<rparr>)
       = grpc_root_certificates_size example_state
   \<and> io_trace (example_state\<lparr>heap := [[45, 0, 128, 255, 65, 0]]\<rparr>) = io_trace example_state
   \<and> object_bytes (example_state\<lparr>heap := [[45, 0, 128, 255, 65, 0]]\<rparr>) Static_certs
       = Some [45, 0, 128, 255, 65]
   \<and> data_ptr example_string = (Heap (length (heap example_state)), 0)"
proof -
  have "object_bytes example_state Static_certs = Some [45, 0, 128, 255, 65]"
    by (simp add: object_bytes_def example_state_def)
  with load_changes_nothing [OF Load_example_state] Load_example_state
  show ?thesis by blast
qed

text \<open>
  C7: when the array is empty and the length constant is accordingly 0, the call
  returns the empty string and does not fail.
\<close>

theorem load_empty_bundle:
  "grpc_root_certificates s = [] \<Longrightarrow> bundle_length_consistent s \<Longrightarrow>
   \<exists>s' r. LoadGrpcRootCertificate s = Inr (s', r)
     \<and> str_size r = 0 \<and> string_bytes s' r = Some []"
  using string_bytes_fresh [of "[]" 0 s 0]
  by (simp add: LoadGrpcRootCertificate_eq bundle_length_consistent_def storage_available_0)

theorem load_empty_bundle_witness:
  "grpc_root_certificates empty_state = [] \<and> bundle_length_consistent empty_state
   \<and> (\<exists>s' r. LoadGrpcRootCertificate empty_state = Inr (s', r)
        \<and> str_size r = 0 \<and> string_bytes s' r = Some [])"
proof -
  have e: "grpc_root_certificates empty_state = []"
    by (simp add: empty_state_def)
  have c: "bundle_length_consistent empty_state"
    by (simp add: bundle_length_consistent_def empty_state_def)
  from load_empty_bundle [OF e c] e c show ?thesis by simp
qed

text \<open>
  C10: every byte of the array is in the returned string, at its position and with its
  bit pattern. A zero byte in the array does not end the string: the bytes after it
  follow as in the array. A byte of value 128 or more becomes a negative \<^verbatim>\<open>char\<close>,
  its value less 256, which is the same eight bits. This holds of every string that a
  call returns, and a call returns one when the constructor can obtain storage.
\<close>

theorem load_keeps_every_byte:
  assumes "bundle_length_consistent s"
  shows "(storage_available s (grpc_root_certificates_size s) \<longrightarrow>
            (\<exists>s' r. LoadGrpcRootCertificate s = Inr (s', r)))
     \<and> (\<forall>s' r. LoadGrpcRootCertificate s = Inr (s', r) \<longrightarrow>
          (\<exists>cs. string_bytes s' r = Some cs
             \<and> length cs = length (grpc_root_certificates s)
             \<and> (\<forall>i < length (grpc_root_certificates s).
                   cs ! i = grpc_root_certificates s ! i
                 \<and> unsigned_char_value (cs ! i)
                     = unsigned_char_value (grpc_root_certificates s ! i)
                 \<and> word_of_int (char_value (cs ! i)) = grpc_root_certificates s ! i
                 \<and> (grpc_root_certificates s ! i = 0 \<longrightarrow>
                      drop (Suc i) cs = drop (Suc i) (grpc_root_certificates s))
                 \<and> (128 \<le> unsigned_char_value (grpc_root_certificates s ! i) \<longrightarrow>
                      char_value (cs ! i)
                        = int (unsigned_char_value (grpc_root_certificates s ! i)) - 256))))"
proof (intro conjI impI allI)
  assume "storage_available s (grpc_root_certificates_size s)"
  with assms show "\<exists>s' r. LoadGrpcRootCertificate s = Inr (s', r)"
    using Load_returns [of s] by blast
next
  fix s' r
  assume ret: "LoadGrpcRootCertificate s = Inr (s', r)"
  from Load_content [OF ret] assms
  have bytes: "string_bytes s' r = Some (grpc_root_certificates s)"
    by (simp add: bundle_length_consistent_def)
  have "\<forall>i < length (grpc_root_certificates s).
      word_of_int (char_value (grpc_root_certificates s ! i)) = grpc_root_certificates s ! i"
    by (simp add: char_value_def)
  moreover have "\<forall>i < length (grpc_root_certificates s).
      128 \<le> unsigned_char_value (grpc_root_certificates s ! i) \<longrightarrow>
         char_value (grpc_root_certificates s ! i)
           = int (unsigned_char_value (grpc_root_certificates s ! i)) - 256"
    by (simp add: char_value_of_byte)
  ultimately show "\<exists>cs. string_bytes s' r = Some cs
     \<and> length cs = length (grpc_root_certificates s)
     \<and> (\<forall>i < length (grpc_root_certificates s).
           cs ! i = grpc_root_certificates s ! i
         \<and> unsigned_char_value (cs ! i) = unsigned_char_value (grpc_root_certificates s ! i)
         \<and> word_of_int (char_value (cs ! i)) = grpc_root_certificates s ! i
         \<and> (grpc_root_certificates s ! i = 0 \<longrightarrow>
              drop (Suc i) cs = drop (Suc i) (grpc_root_certificates s))
         \<and> (128 \<le> unsigned_char_value (grpc_root_certificates s ! i) \<longrightarrow>
              char_value (cs ! i)
                = int (unsigned_char_value (grpc_root_certificates s ! i)) - 256))"
    using bytes by blast
qed

theorem load_keeps_every_byte_witness:
  "bundle_length_consistent example_state
   \<and> storage_available example_state (grpc_root_certificates_size example_state)
   \<and> (\<exists>s' r cs. LoadGrpcRootCertificate example_state = Inr (s', r)
        \<and> string_bytes s' r = Some cs
        \<and> length cs = 5 \<and> cs ! 1 = 0 \<and> drop 2 cs = [128, 255, 65]
        \<and> char_value (cs ! 3) = - 1)"
proof -
  have b: "grpc_root_certificates example_state = [45, 0, 128, 255, 65]"
    by (simp add: example_state_def)
  from load_keeps_every_byte [OF example_state_consistent] example_state_storage
  obtain s' r where ret: "LoadGrpcRootCertificate example_state = Inr (s', r)"
    by blast
  from load_keeps_every_byte [OF example_state_consistent] ret
  obtain cs where res: "string_bytes s' r = Some cs"
    and len: "length cs = length (grpc_root_certificates example_state)"
    and all: "\<And>i. i < length (grpc_root_certificates example_state) \<Longrightarrow>
           cs ! i = grpc_root_certificates example_state ! i
         \<and> (grpc_root_certificates example_state ! i = 0 \<longrightarrow>
              drop (Suc i) cs = drop (Suc i) (grpc_root_certificates example_state))
         \<and> (128 \<le> unsigned_char_value (grpc_root_certificates example_state ! i) \<longrightarrow>
              char_value (cs ! i)
                = int (unsigned_char_value (grpc_root_certificates example_state ! i)) - 256)"
    by blast
  from len b have l5: "length cs = 5"
    by simp
  from all [of 1] b have at1: "cs ! 1 = 0" "drop 2 cs = [128, 255, 65]"
    by (simp_all add: numeral_2_eq_2)
  from all [of 3] b have at3: "char_value (cs ! 3) = - 1"
    by (simp add: unsigned_char_value_def char_value_def numeral_3_eq_3)
  from ret res l5 at1 at3 example_state_consistent example_state_storage show ?thesis
    by blast
qed

subsection \<open>Sequences of calls and modifications\<close>

lemma handles_owned_start: "handles_owned (s, [])"
  by (simp add: handles_owned_def)

lemma handles_owned_nth:
  assumes "handles_owned (s, rs)" "k < length rs"
  shows "\<exists>m. data_ptr (rs ! k) = (Heap m, 0) \<and> m < length (heap s)
      \<and> length (heap s ! m) = Suc (str_size (rs ! k))"
proof -
  from assms(2) have "rs ! k \<in> set rs" by simp
  with assms(1) show ?thesis
    unfolding handles_owned_def by auto
qed

lemma store_used_string_set:
  assumes "m < length (heap s)"
  shows "store_used (s\<lparr>heap := (heap s)[m := (heap s ! m)[i := c]]\<rparr>) = store_used s"
proof -
  from assms have "(map length (heap s))[m := length (heap s ! m)]
      = (map length (heap s))[m := map length (heap s) ! m]"
    by simp
  also have "\<dots> = map length (heap s)"
    by (rule list_update_id)
  finally show ?thesis
    by (simp add: store_used_def map_update)
qed

lemma Load_same_statics:
  assumes "same_statics s t" "store_used t = store_used s"
    and "LoadGrpcRootCertificate s = Inr (s', r)"
  shows "\<exists>t' r'. LoadGrpcRootCertificate t = Inr (t', r')
     \<and> string_bytes t' r' = string_bytes s' r"
proof -
  from assms(1,2) have eq: "grpc_root_certificates t = grpc_root_certificates s"
      "grpc_root_certificates_size t = grpc_root_certificates_size s"
      "storage_available t (grpc_root_certificates_size t)
        = storage_available s (grpc_root_certificates_size s)"
      "max_size t = max_size s"
    by (simp_all add: same_statics_def storage_available_def)
  from Load_result(3,4) [OF assms(3)] eq
  have "\<exists>t' r'. LoadGrpcRootCertificate t = Inr (t', r')"
    by (simp add: LoadGrpcRootCertificate_eq storage_available_def)
  then obtain t' r' where ret: "LoadGrpcRootCertificate t = Inr (t', r')"
    by blast
  from Load_content [OF ret] Load_content [OF assms(3)] eq ret show ?thesis
    by simp
qed

lemma string_set_owned:
  assumes "data_ptr r = (Heap m, 0)" "m < length (heap s)"
    "length (heap s ! m) = Suc (str_size r)" "i < str_size r"
  shows "string_set s r i c = Inr (s\<lparr>heap := (heap s)[m := (heap s ! m)[i := c]]\<rparr>)"
  using assms by (simp add: string_set_def store_byte_def)

lemma string_bytes_owned:
  assumes "data_ptr r = (Heap m, 0)" "m < length (heap s)"
    "length (heap s ! m) = Suc (str_size r)"
  shows "string_bytes s r = Some (take (str_size r) (heap s ! m))"
  using assms by (simp add: string_bytes_def copy_chars_eq object_bytes_def)

lemma step_Load_owned:
  assumes "handles_owned (s, rs)" "LoadGrpcRootCertificate s = Inr (s', r)"
  shows "handles_owned (s', rs @ [r])"
proof -
  from assms(2) have s': "heap s' = heap s @
        [take (grpc_root_certificates_size s) (grpc_root_certificates s) @ [0]]"
    and r: "data_ptr r = (Heap (length (heap s)), 0)"
      "str_size r = grpc_root_certificates_size s"
    and le: "grpc_root_certificates_size s \<le> length (grpc_root_certificates s)"
    by (auto simp: LoadGrpcRootCertificate_eq split: if_splits)
  from assms(1) have old: "\<forall>q \<in> set rs. \<exists>m. data_ptr q = (Heap m, 0) \<and> m < length (heap s)
      \<and> length (heap s ! m) = Suc (str_size q)"
    and dist: "distinct (map data_ptr rs)"
    by (simp_all add: handles_owned_def)
  from old r have fresh: "data_ptr r \<notin> data_ptr ` set rs"
    by force
  from old have "\<forall>q \<in> set rs. \<exists>m. data_ptr q = (Heap m, 0) \<and> m < length (heap s')
      \<and> length (heap s' ! m) = Suc (str_size q)"
    by (auto simp: s' nth_append) 
  moreover from r le have "\<exists>m. data_ptr r = (Heap m, 0) \<and> m < length (heap s')
      \<and> length (heap s' ! m) = Suc (str_size r)"
    by (simp add: s' nth_append)
  ultimately show ?thesis
    using dist fresh by (simp add: handles_owned_def)
qed

lemma step_Modify_owned:
  assumes "handles_owned (s, rs)" "k < length rs" "string_set s (rs ! k) i c = Inr s'"
  shows "handles_owned (s', rs)"
proof -
  from handles_owned_nth [OF assms(1,2)]
  obtain m where m: "data_ptr (rs ! k) = (Heap m, 0)" "m < length (heap s)"
      "length (heap s ! m) = Suc (str_size (rs ! k))"
    by blast
  from assms(3) have i: "i < str_size (rs ! k)"
    by (simp add: string_set_def split: if_splits)
  from string_set_owned [OF m i] assms(3)
  have s': "s' = s\<lparr>heap := (heap s)[m := (heap s ! m)[i := c]]\<rparr>"
    by simp
  have len: "\<forall>j < length (heap s).
      length ((heap s)[m := (heap s ! m)[i := c]] ! j) = length (heap s ! j)"
    using m(2) by (simp add: nth_list_update)
  from assms(1) have "\<forall>q \<in> set rs. \<exists>j. data_ptr q = (Heap j, 0) \<and> j < length (heap s)
      \<and> length (heap s ! j) = Suc (str_size q)"
    and dist: "distinct (map data_ptr rs)"
    by (simp_all add: handles_owned_def)
  with len have "\<forall>q \<in> set rs. \<exists>j. data_ptr q = (Heap j, 0) \<and> j < length (heap s')
      \<and> length (heap s' ! j) = Suc (str_size q)"
    unfolding s' by fastforce
  with dist show ?thesis
    by (simp add: handles_owned_def)
qed

lemma step_owned:
  assumes "handles_owned c" "step c a = Inr c'"
  shows "handles_owned c'"
proof (cases c)
  case (Pair s rs)
  show ?thesis
  proof (cases a)
    case Call_Load
    with assms Pair show ?thesis
      by (auto split: sum.splits dest: step_Load_owned)
  next
    case (Modify k i v)
    with assms Pair show ?thesis
      by (auto split: sum.splits if_splits dest: step_Modify_owned)
  qed
qed

lemma Load_statics:
  "LoadGrpcRootCertificate s = Inr (s', r) \<Longrightarrow> same_statics s s'"
  by (auto simp: LoadGrpcRootCertificate_eq same_statics_def split: if_splits)

lemma string_set_statics:
  assumes "handles_owned (s, rs)" "k < length rs" "string_set s (rs ! k) i c = Inr s'"
  shows "same_statics s s'"
proof -
  from handles_owned_nth [OF assms(1,2)]
  obtain m where m: "data_ptr (rs ! k) = (Heap m, 0)" "m < length (heap s)"
      "length (heap s ! m) = Suc (str_size (rs ! k))"
    by blast
  from assms(3) have i: "i < str_size (rs ! k)"
    by (simp add: string_set_def split: if_splits)
  from string_set_owned [OF m i] assms(3) show ?thesis
    by (auto simp: same_statics_def)
qed

lemma step_statics:
  assumes "handles_owned c" "step c a = Inr c'"
  shows "same_statics (fst c) (fst c')"
proof (cases c)
  case (Pair s rs)
  show ?thesis
  proof (cases a)
    case Call_Load
    with assms Pair show ?thesis
      by (auto split: sum.splits dest: Load_statics)
  next
    case (Modify k i v)
    with assms Pair show ?thesis
      by (auto split: sum.splits if_splits dest: string_set_statics)
  qed
qed

lemma same_statics_refl: "same_statics s s"
  by (simp add: same_statics_def)

lemma same_statics_trans: "same_statics s t \<Longrightarrow> same_statics t u \<Longrightarrow> same_statics s u"
  by (simp add: same_statics_def)

lemma run_owned_statics:
  "handles_owned c \<Longrightarrow> run c as = Inr c' \<Longrightarrow>
   handles_owned c' \<and> same_statics (fst c) (fst c')"
proof (induction as arbitrary: c)
  case Nil
  then show ?case by (simp add: same_statics_refl)
next
  case (Cons a as)
  from Cons.prems(2) obtain d where d: "step c a = Inr d" "run d as = Inr c'"
    by (auto split: sum.splits)
  from step_owned [OF Cons.prems(1) d(1)] step_statics [OF Cons.prems(1) d(1)]
    Cons.IH [OF _ d(2)]
  show ?case by (blast intro: same_statics_trans)
qed

subsection \<open>Example runs\<close>

lemma four_eq: "(4::nat) = Suc (Suc (Suc (Suc 0)))"
  by simp

lemma example_run_1:
  "run (example_state, []) [Call_Load, Modify 0 1 7]
     = Inr (example_with_heap [[45, 7, 128, 255, 65, 0]], [example_string_at 0])"
  by (simp add: LoadGrpcRootCertificate_eq storage_available_def store_used_def
      string_set_def store_byte_def string_bytes_def copy_chars_eq object_bytes_def
      example_with_heap_def example_state_def example_string_at_def
      numeral_2_eq_2 numeral_3_eq_3 four_eq)

lemma example_Load_2:
  "LoadGrpcRootCertificate (example_with_heap [[45, 7, 128, 255, 65, 0]])
     = Inr (example_with_heap [[45, 7, 128, 255, 65, 0], [45, 0, 128, 255, 65, 0]],
            example_string_at 1)"
  by (simp add: LoadGrpcRootCertificate_eq storage_available_def store_used_def
      string_set_def store_byte_def string_bytes_def copy_chars_eq object_bytes_def
      example_with_heap_def example_state_def example_string_at_def
      numeral_2_eq_2 numeral_3_eq_3 four_eq)

lemma example_run_3:
  "run (example_with_heap [[45, 7, 128, 255, 65, 0], [45, 0, 128, 255, 65, 0]],
        [example_string_at 0] @ [example_string_at 1]) [Modify 1 0 9, Modify 0 4 3]
     = Inr (example_with_heap [[45, 7, 128, 255, 3, 0], [9, 0, 128, 255, 65, 0]],
            [example_string_at 0, example_string_at 1])"
  by (simp add: LoadGrpcRootCertificate_eq storage_available_def store_used_def
      string_set_def store_byte_def string_bytes_def copy_chars_eq object_bytes_def
      example_with_heap_def example_state_def example_string_at_def
      numeral_2_eq_2 numeral_3_eq_3 four_eq)

lemma example_Load_4:
  "LoadGrpcRootCertificate
       (example_with_heap [[45, 7, 128, 255, 3, 0], [9, 0, 128, 255, 65, 0]])
     = Inr (example_with_heap
              [[45, 7, 128, 255, 3, 0], [9, 0, 128, 255, 65, 0], [45, 0, 128, 255, 65, 0]],
            example_string_at 2)"
  by (simp add: LoadGrpcRootCertificate_eq storage_available_def store_used_def
      string_set_def store_byte_def string_bytes_def copy_chars_eq object_bytes_def
      example_with_heap_def example_state_def example_string_at_def
      numeral_2_eq_2 numeral_3_eq_3 four_eq)

lemma example_bytes_2:
  "string_bytes (example_with_heap [[45, 7, 128, 255, 65, 0], [45, 0, 128, 255, 65, 0]])
     (example_string_at 1) = Some [45, 0, 128, 255, 65]"
  by (simp add: LoadGrpcRootCertificate_eq storage_available_def store_used_def
      string_set_def store_byte_def string_bytes_def copy_chars_eq object_bytes_def
      example_with_heap_def example_state_def example_string_at_def
      numeral_2_eq_2 numeral_3_eq_3 four_eq)

lemma example_run_5:
  "run (example_state, []) [Call_Load, Call_Load]
     = Inr (example_with_heap [[45, 0, 128, 255, 65, 0], [45, 0, 128, 255, 65, 0]],
            [example_string_at 0, example_string_at 1])"
  by (simp add: LoadGrpcRootCertificate_eq storage_available_def store_used_def
      string_set_def store_byte_def string_bytes_def copy_chars_eq object_bytes_def
      example_with_heap_def example_state_def example_string_at_def
      numeral_2_eq_2 numeral_3_eq_3 four_eq)

lemma example_bytes_5:
  "string_bytes (example_with_heap [[45, 0, 128, 255, 65, 0], [45, 0, 128, 255, 65, 0]])
     (example_string_at 0) = Some [45, 0, 128, 255, 65]"
  by (simp add: LoadGrpcRootCertificate_eq storage_available_def store_used_def
      string_set_def store_byte_def string_bytes_def copy_chars_eq object_bytes_def
      example_with_heap_def example_state_def example_string_at_def
      numeral_2_eq_2 numeral_3_eq_3 four_eq)

lemma example_bytes_5_other:
  "string_bytes (example_with_heap [[45, 0, 128, 255, 65, 0], [45, 0, 128, 255, 65, 0]])
     (example_string_at 1) = Some [45, 0, 128, 255, 65]"
  by (simp add: LoadGrpcRootCertificate_eq storage_available_def store_used_def
      string_set_def store_byte_def string_bytes_def copy_chars_eq object_bytes_def
      example_with_heap_def example_state_def example_string_at_def
      numeral_2_eq_2 numeral_3_eq_3 four_eq)

lemma example_run_6:
  "run (example_state, []) [Call_Load, Modify 0 1 7, Call_Load]
     = Inr (example_with_heap [[45, 7, 128, 255, 65, 0], [45, 0, 128, 255, 65, 0]],
            [example_string_at 0, example_string_at 1])"
  by (simp add: LoadGrpcRootCertificate_eq storage_available_def store_used_def
      string_set_def store_byte_def string_bytes_def copy_chars_eq object_bytes_def
      example_with_heap_def example_state_def example_string_at_def
      numeral_2_eq_2 numeral_3_eq_3 four_eq)

subsection \<open>Many calls\<close>

text \<open>
  C3: two calls in one process return the same bytes. The calls may be any two: other
  calls and modifications of strings returned earlier, the string of the first call
  among them, may come before the first call and between the two.
\<close>

theorem two_calls_same_content:
  assumes "run (s0, []) as1 = Inr (sa, rsa)"
    and "LoadGrpcRootCertificate sa = Inr (sa', ra)"
    and "run (sa', rsa @ [ra]) as2 = Inr (sb, rsb)"
    and "LoadGrpcRootCertificate sb = Inr (sb', rb)"
  shows "string_bytes sb' rb = string_bytes sa' ra
     \<and> (\<exists>cs. string_bytes sa' ra = Some cs)"
proof -
  from run_owned_statics [OF handles_owned_start assms(1)]
  have inv_a: "handles_owned (sa, rsa)" by simp
  from step_Load_owned [OF inv_a assms(2)]
  have inv_a': "handles_owned (sa', rsa @ [ra])" .
  from run_owned_statics [OF inv_a' assms(3)]
  have "same_statics sa' sb" by simp
  with Load_statics [OF assms(2)] have "same_statics sa sb"
    by (rule same_statics_trans)
  with Load_content [OF assms(2)] Load_content [OF assms(4)] show ?thesis
    by (simp add: same_statics_def)
qed

theorem two_calls_same_content_witness:
  "run (example_state, []) [Call_Load, Modify 0 1 7]
     = Inr (example_with_heap [[45, 7, 128, 255, 65, 0]], [example_string_at 0])
   \<and> LoadGrpcRootCertificate (example_with_heap [[45, 7, 128, 255, 65, 0]])
     = Inr (example_with_heap [[45, 7, 128, 255, 65, 0], [45, 0, 128, 255, 65, 0]],
            example_string_at 1)
   \<and> run (example_with_heap [[45, 7, 128, 255, 65, 0], [45, 0, 128, 255, 65, 0]],
          [example_string_at 0] @ [example_string_at 1]) [Modify 1 0 9, Modify 0 4 3]
     = Inr (example_with_heap [[45, 7, 128, 255, 3, 0], [9, 0, 128, 255, 65, 0]],
            [example_string_at 0, example_string_at 1])
   \<and> LoadGrpcRootCertificate
         (example_with_heap [[45, 7, 128, 255, 3, 0], [9, 0, 128, 255, 65, 0]])
     = Inr (example_with_heap
              [[45, 7, 128, 255, 3, 0], [9, 0, 128, 255, 65, 0], [45, 0, 128, 255, 65, 0]],
            example_string_at 2)
   \<and> string_bytes
         (example_with_heap
            [[45, 7, 128, 255, 3, 0], [9, 0, 128, 255, 65, 0], [45, 0, 128, 255, 65, 0]])
         (example_string_at 2)
     = Some [45, 0, 128, 255, 65]"
  using two_calls_same_content [OF example_run_1 example_Load_2 example_run_3 example_Load_4]
    example_run_1 example_Load_2 example_run_3 example_Load_4 example_bytes_2
  by simp

text \<open>
  C5: the returned string is a copy that the caller owns. When a caller writes a byte
  into a string that some call returned, the write succeeds and changes that string;
  the array \<open>grpc_root_certificates\<close> and its length constant are as before, every
  other string returned so far holds the bytes it held, and a later call returns what
  it would have returned without the write.
\<close>

theorem modify_leaves_others_unchanged:
  assumes "run (s0, []) as = Inr (s, rs)" "k < length rs" "i < str_size (rs ! k)"
  shows "\<exists>s'. string_set s (rs ! k) i c = Inr s'
     \<and> grpc_root_certificates s' = grpc_root_certificates s
     \<and> grpc_root_certificates_size s' = grpc_root_certificates_size s
     \<and> (\<forall>j < length rs. j \<noteq> k \<longrightarrow> string_bytes s' (rs ! j) = string_bytes s (rs ! j))
     \<and> (\<forall>t r. LoadGrpcRootCertificate s = Inr (t, r) \<longrightarrow>
           (\<exists>t' r'. LoadGrpcRootCertificate s' = Inr (t', r')
              \<and> string_bytes t' r' = string_bytes t r))
     \<and> (\<exists>cs. string_bytes s (rs ! k) = Some cs
           \<and> string_bytes s' (rs ! k) = Some (cs[i := c]))"
proof -
  from run_owned_statics [OF handles_owned_start assms(1)]
  have inv: "handles_owned (s, rs)" by simp
  from handles_owned_nth [OF inv assms(2)]
  obtain m where m: "data_ptr (rs ! k) = (Heap m, 0)" "m < length (heap s)"
      "length (heap s ! m) = Suc (str_size (rs ! k))"
    by blast
  define s' where "s' = s\<lparr>heap := (heap s)[m := (heap s ! m)[i := c]]\<rparr>"
  have set: "string_set s (rs ! k) i c = Inr s'"
    unfolding s'_def by (rule string_set_owned [OF m assms(3)])
  have inv': "handles_owned (s', rs)"
    by (rule step_Modify_owned [OF inv assms(2) set])
  have stat: "same_statics s s'"
    by (rule string_set_statics [OF inv assms(2) set])
  have others: "string_bytes s' (rs ! j) = string_bytes s (rs ! j)"
    if j: "j < length rs" "j \<noteq> k" for j
  proof -
    from handles_owned_nth [OF inv j(1)]
    obtain mj where mj: "data_ptr (rs ! j) = (Heap mj, 0)" "mj < length (heap s)"
        "length (heap s ! mj) = Suc (str_size (rs ! j))"
      by blast
    from inv have "distinct (map data_ptr rs)"
      by (simp add: handles_owned_def)
    from nth_eq_iff_index_eq [OF this, of j k] j assms(2)
    have "data_ptr (rs ! j) \<noteq> data_ptr (rs ! k)"
      by simp
    with m(1) mj(1) have ne: "mj \<noteq> m"
      by auto
    with mj(2) have same: "heap s' ! mj = heap s ! mj" "mj < length (heap s')"
      by (simp_all add: s'_def)
    from mj(3) same have "length (heap s' ! mj) = Suc (str_size (rs ! j))"
      by simp
    from string_bytes_owned [OF mj(1) same(2) this] string_bytes_owned [OF mj]
    show ?thesis by (simp add: same)
  qed
  have own: "string_bytes s (rs ! k) = Some (take (str_size (rs ! k)) (heap s ! m))"
    by (rule string_bytes_owned [OF m])
  have "heap s' ! m = (heap s ! m)[i := c]" "m < length (heap s')"
    using m(2) by (simp_all add: s'_def)
  moreover from this m(3) have "length (heap s' ! m) = Suc (str_size (rs ! k))"
    by simp
  ultimately have own': "string_bytes s' (rs ! k)
      = Some ((take (str_size (rs ! k)) (heap s ! m))[i := c])"
    using string_bytes_owned [OF m(1), of s'] by (simp add: take_update_swap)
  from stat have "grpc_root_certificates s' = grpc_root_certificates s"
      "grpc_root_certificates_size s' = grpc_root_certificates_size s"
    by (simp_all add: same_statics_def)
  moreover have "store_used s' = store_used s"
    unfolding s'_def by (rule store_used_string_set [OF m(2)])
  ultimately show ?thesis
    using set others own own' Load_same_statics [OF stat] by blast
qed

theorem modify_leaves_others_unchanged_witness:
  "run (example_state, []) [Call_Load, Call_Load]
     = Inr (example_with_heap [[45, 0, 128, 255, 65, 0], [45, 0, 128, 255, 65, 0]],
            [example_string_at 0, example_string_at 1])
   \<and> (0::nat) < length [example_string_at 0, example_string_at 1]
   \<and> 1 < str_size ([example_string_at 0, example_string_at 1] ! 0)
   \<and> (\<exists>s'. string_set
               (example_with_heap [[45, 0, 128, 255, 65, 0], [45, 0, 128, 255, 65, 0]])
               (example_string_at 0) 1 7 = Inr s'
          \<and> grpc_root_certificates s' = [45, 0, 128, 255, 65]
          \<and> string_bytes s' (example_string_at 1) = Some [45, 0, 128, 255, 65]
          \<and> string_bytes s' (example_string_at 0) = Some [45, 7, 128, 255, 65])"
proof -
  let ?s = "example_with_heap [[45, 0, 128, 255, 65, 0], [45, 0, 128, 255, 65, 0]]"
  let ?rs = "[example_string_at 0, example_string_at 1]"
  have k: "(0::nat) < length ?rs"
    by simp
  have i: "1 < str_size (?rs ! 0)"
    by (simp add: example_string_at_def)
  from modify_leaves_others_unchanged [OF example_run_5 k i, of 7]
  obtain s' where wr: "string_set ?s (?rs ! 0) 1 7 = Inr s'"
    and bn: "grpc_root_certificates s' = grpc_root_certificates ?s"
    and ot: "\<forall>j < length ?rs. j \<noteq> 0 \<longrightarrow>
        string_bytes s' (?rs ! j) = string_bytes ?s (?rs ! j)"
    and ow: "\<exists>cs. string_bytes ?s (?rs ! 0) = Some cs
        \<and> string_bytes s' (?rs ! 0) = Some (cs[1 := 7])"
    by blast
  from bn have b: "grpc_root_certificates s' = [45, 0, 128, 255, 65]"
    by (simp add: example_with_heap_def example_state_def)
  from ot [rule_format, of 1]
  have "string_bytes s' (example_string_at 1) = string_bytes ?s (example_string_at 1)"
    by simp
  from trans [OF this example_bytes_5_other]
  have o: "string_bytes s' (example_string_at 1) = Some [45, 0, 128, 255, 65]" .
  from ow have w: "string_bytes s' (example_string_at 0) = Some [45, 7, 128, 255, 65]"
    by (simp add: example_bytes_5)
  from wr have "string_set ?s (example_string_at 0) 1 7 = Inr s'"
    by simp
  with b o w example_run_5 k i show ?thesis
    by blast
qed

text \<open>
  C8: the length constant equals the byte length of the array, and stays so for the
  life of the process. The equality at the start is the requirement on the generated
  header. From there, calls of the accessor and writes into the strings they returned
  never change the array or the constant, so the equality holds in every state the
  process reaches.
\<close>

theorem length_constant_stays_consistent:
  assumes "bundle_length_consistent s0" "run (s0, []) as = Inr (s, rs)"
  shows "bundle_length_consistent s
     \<and> grpc_root_certificates s = grpc_root_certificates s0
     \<and> grpc_root_certificates_size s = grpc_root_certificates_size s0"
  using run_owned_statics [OF handles_owned_start assms(2)] assms(1)
  by (simp add: same_statics_def bundle_length_consistent_def)

theorem length_constant_stays_consistent_witness:
  "bundle_length_consistent example_state
   \<and> run (example_state, []) [Call_Load, Modify 0 1 7, Call_Load]
     = Inr (example_with_heap [[45, 7, 128, 255, 65, 0], [45, 0, 128, 255, 65, 0]],
            [example_string_at 0, example_string_at 1])
   \<and> bundle_length_consistent
       (example_with_heap [[45, 7, 128, 255, 65, 0], [45, 0, 128, 255, 65, 0]])
   \<and> grpc_root_certificates
       (example_with_heap [[45, 7, 128, 255, 65, 0], [45, 0, 128, 255, 65, 0]])
     = grpc_root_certificates example_state
   \<and> grpc_root_certificates_size
       (example_with_heap [[45, 7, 128, 255, 65, 0], [45, 0, 128, 255, 65, 0]])
     = grpc_root_certificates_size example_state"
  using length_constant_stays_consistent [OF example_state_consistent example_run_6]
    example_state_consistent example_run_6
  by simp

end
